theory Spec2Isabelle
  imports Main
begin

section \<open>The browser environment the components touch\<close>

text \<open>
  Both components reach into two browser globals only: the class list of
  \<^verbatim>\<open>document.documentElement\<close> and \<^verbatim>\<open>window.open\<close>. The class list is an
  ordered collection of tokens; a call of \<^verbatim>\<open>window.open\<close> is recorded with its three
  arguments, in call order.
\<close>

type_synonym DOMTokenList = "string list"

record window_open_call =
  url :: string
  target :: string
  features :: string

record browser =
  classList :: DOMTokenList
  opened :: "window_open_call list"

text \<open>\<^verbatim>\<open>el.classList.contains(tok)\<close>\<close>

definition classList_contains :: "DOMTokenList \<Rightarrow> string \<Rightarrow> bool" where
  "classList_contains cl tok = (tok \<in> set cl)"

text \<open>
  \<^verbatim>\<open>el.classList.toggle(tok)\<close>: removes the token when it is there and answers
  false, appends it and answers true otherwise.
\<close>

definition classList_toggle :: "DOMTokenList \<Rightarrow> string \<Rightarrow> DOMTokenList \<times> bool" where
  "classList_toggle cl tok =
     (if tok \<in> set cl then (removeAll tok cl, False) else (cl @ [tok], True))"

text \<open>\<^verbatim>\<open>window.open(u, t, f)\<close>; the returned handle is never used by the callers.\<close>

definition window_open :: "string \<Rightarrow> string \<Rightarrow> string \<Rightarrow> browser \<Rightarrow> browser" where
  "window_open u t f b = b\<lparr>opened := opened b @ [\<lparr>url = u, target = t, features = f\<rparr>]\<rparr>"

text \<open>
  The two fields of \<^verbatim>\<open>package.json\<close> that \<^verbatim>\<open>Nav\<close> reads. The file itself is
  configuration, so it is a parameter of everything below.
\<close>

record package_json =
  homepage :: string
  readmore :: string

section \<open>Component state and rendered output\<close>

text \<open>
  Each component owns one hook cell, \<^verbatim>\<open>const [isDarkMode, setIsDarkMode] = useState(false)\<close>.
\<close>

record hooks =
  isDarkMode :: bool

record img =
  src :: string
  alt :: string
  className :: string

datatype icon = Sun | Moon

record nav_view =
  logo :: img
  brand :: string
  toggle_icon :: icon
  toggle_label :: string

section \<open>ThemeSwitcher (src/components/logos/ThemeSwitcher.tsx)\<close>

definition ThemeSwitcher_useState :: hooks where
  "ThemeSwitcher_useState = \<lparr>isDarkMode = False\<rparr>"

text \<open>
  The layout effect, registered with an empty dependency list, so it runs once, when the
  component mounts.
\<close>

definition ThemeSwitcher_useLayoutEffect :: "browser \<Rightarrow> hooks \<Rightarrow> browser \<times> hooks" where
  "ThemeSwitcher_useLayoutEffect b h =
     (let el = classList b
      in (b, h\<lparr>isDarkMode := classList_contains el ''dark''\<rparr>))"

definition ThemeSwitcher_render :: "hooks \<Rightarrow> img" where
  "ThemeSwitcher_render h =
     \<lparr>src = (if isDarkMode h then ''/botdw-white.png'' else ''/botdw-black.png''),
      alt = ''BotDW Logo'',
      className = ''h-10 w-auto transition-all duration-300 ease-in-out''\<rparr>"

section \<open>Nav (src/unnamed/part_000)\<close>

definition Nav_useState :: hooks where
  "Nav_useState = \<lparr>isDarkMode = False\<rparr>"

definition Nav_useLayoutEffect :: "browser \<Rightarrow> hooks \<Rightarrow> browser \<times> hooks" where
  "Nav_useLayoutEffect b h =
     (let el = classList b
      in (b, h\<lparr>isDarkMode := classList_contains el ''dark''\<rparr>))"

text \<open>
  The repository holds a second copy of this component (src/unnamed/part_001) with
  another brand text and the homepage button only; its hook cell, layout effect and
  \<^verbatim>\<open>toggleDark\<close> are the same text, so what follows covers both.
\<close>

text \<open>
  \<^verbatim>\<open>toggleDark\<close>: toggles the token on the root element, drops the answer, and
  negates the component's own cell with the updater \<^verbatim>\<open>(prev) => !prev\<close>.
\<close>

definition toggleDark :: "browser \<Rightarrow> hooks \<Rightarrow> browser \<times> hooks" where
  "toggleDark b h =
     (let el = classList b;
          b' = b\<lparr>classList := fst (classList_toggle el ''dark'')\<rparr>
      in (b', h\<lparr>isDarkMode := \<not> isDarkMode h\<rparr>))"

text \<open>The two link buttons.\<close>

definition onClick_homepage :: "package_json \<Rightarrow> browser \<Rightarrow> browser" where
  "onClick_homepage pkg b = window_open (homepage pkg) ''_blank'' ''noopener noreferrer'' b"

definition onClick_readmore :: "package_json \<Rightarrow> browser \<Rightarrow> browser" where
  "onClick_readmore pkg b = window_open (readmore pkg) ''_blank'' ''noopener noreferrer'' b"

text \<open>
  What \<^verbatim>\<open>Nav\<close> returns, as far as it depends on state: the child logo, the brand text,
  and the icon and text of the third button.
\<close>

definition Nav_render :: "hooks \<Rightarrow> img \<Rightarrow> nav_view" where
  "Nav_render h child =
     \<lparr>logo = child,
      brand = ''BOT WORKS'',
      toggle_icon = (if isDarkMode h then Sun else Moon),
      toggle_label = (if isDarkMode h then ''Light'' else ''Dark'') @ '' Mode''\<rparr>"

section \<open>The mounted page: a Nav with its ThemeSwitcher child\<close>

record page =
  env :: browser
  Nav_hooks :: hooks
  ThemeSwitcher_hooks :: hooks

text \<open>The first render pass: every hook cell holds its initial value.\<close>

definition first_render :: "browser \<Rightarrow> page" where
  "first_render b =
     \<lparr>env = b, Nav_hooks = Nav_useState, ThemeSwitcher_hooks = ThemeSwitcher_useState\<rparr>"

text \<open>
  The commit of the mount: layout effects run child first, then parent, and the state
  they set is flushed before the browser paints.
\<close>

definition commit_layout_effects :: "page \<Rightarrow> page" where
  "commit_layout_effects p =
     (let (b1, ts) = ThemeSwitcher_useLayoutEffect (env p) (ThemeSwitcher_hooks p);
          (b2, nv) = Nav_useLayoutEffect b1 (Nav_hooks p)
      in \<lparr>env = b2, Nav_hooks = nv, ThemeSwitcher_hooks = ts\<rparr>)"

definition mount :: "browser \<Rightarrow> page" where
  "mount b = commit_layout_effects (first_render b)"

datatype control = Prototype | ReadMore | ToggleTheme

text \<open>
  A click runs the handler of the button. The re-render that follows a state change
  keeps the child's hook cell, and the child's effect does not run again.
\<close>

fun click :: "package_json \<Rightarrow> control \<Rightarrow> page \<Rightarrow> page" where
  "click pkg Prototype p = p\<lparr>env := onClick_homepage pkg (env p)\<rparr>"
| "click pkg ReadMore p = p\<lparr>env := onClick_readmore pkg (env p)\<rparr>"
| "click pkg ToggleTheme p =
     (let (b', nv) = toggleDark (env p) (Nav_hooks p)
      in p\<lparr>env := b', Nav_hooks := nv\<rparr>)"

fun clicks :: "package_json \<Rightarrow> control list \<Rightarrow> page \<Rightarrow> page" where
  "clicks pkg [] p = p"
| "clicks pkg (c # cs) p = clicks pkg cs (click pkg c p)"

definition view :: "page \<Rightarrow> nav_view" where
  "view p = Nav_render (Nav_hooks p) (ThemeSwitcher_render (ThemeSwitcher_hooks p))"

text \<open>The marker: whether the root element carries the token \<^verbatim>\<open>dark\<close>.\<close>

definition marker :: "browser \<Rightarrow> bool" where
  "marker b = classList_contains (classList b) ''dark''"

section \<open>Basic facts\<close>

lemma marker_toggleDark: "marker (fst (toggleDark b h)) = (\<not> marker b)"
  by (simp add: toggleDark_def marker_def classList_contains_def classList_toggle_def Let_def)

lemma isDarkMode_toggleDark: "isDarkMode (snd (toggleDark b h)) = (\<not> isDarkMode h)"
  by (simp add: toggleDark_def Let_def)

lemma opened_toggleDark: "opened (fst (toggleDark b h)) = opened b"
  by (simp add: toggleDark_def Let_def)

lemma tokens_toggle_twice:
  "set (fst (classList_toggle (fst (classList_toggle cl tok)) tok)) = set cl"
  by (auto simp: classList_toggle_def)

lemma marker_window_open: "marker (window_open u t f b) = marker b"
  by (simp add: window_open_def marker_def)

lemma Nav_hooks_mount: "isDarkMode (Nav_hooks (mount b)) = marker b"
  by (simp add: mount_def commit_layout_effects_def first_render_def
      ThemeSwitcher_useLayoutEffect_def Nav_useLayoutEffect_def marker_def Let_def)

lemma ThemeSwitcher_hooks_mount: "isDarkMode (ThemeSwitcher_hooks (mount b)) = marker b"
  by (simp add: mount_def commit_layout_effects_def first_render_def
      ThemeSwitcher_useLayoutEffect_def Nav_useLayoutEffect_def marker_def Let_def)

lemma env_mount: "env (mount b) = b"
  by (simp add: mount_def commit_layout_effects_def first_render_def
      ThemeSwitcher_useLayoutEffect_def Nav_useLayoutEffect_def Let_def)

lemma Nav_agrees_click:
  "isDarkMode (Nav_hooks p) = marker (env p) \<Longrightarrow>
   isDarkMode (Nav_hooks (click pkg c p)) = marker (env (click pkg c p))"
proof (cases c)
  case ToggleTheme
  assume "isDarkMode (Nav_hooks p) = marker (env p)"
  with ToggleTheme show ?thesis
    using marker_toggleDark [of "env p" "Nav_hooks p"]
      isDarkMode_toggleDark [of "env p" "Nav_hooks p"]
    by (simp add: split_beta Let_def)
qed (simp_all add: onClick_homepage_def onClick_readmore_def marker_window_open)

lemma Nav_agrees_clicks:
  "isDarkMode (Nav_hooks p) = marker (env p) \<Longrightarrow>
   isDarkMode (Nav_hooks (clicks pkg cs p)) = marker (env (clicks pkg cs p))"
  by (induction cs arbitrary: p) (simp_all add: Nav_agrees_click)

lemma ThemeSwitcher_hooks_click: "ThemeSwitcher_hooks (click pkg c p) = ThemeSwitcher_hooks p"
  by (cases c) (simp_all add: split_beta Let_def)

lemma ThemeSwitcher_hooks_clicks: "ThemeSwitcher_hooks (clicks pkg cs p) = ThemeSwitcher_hooks p"
  by (induction cs arbitrary: p) (simp_all add: ThemeSwitcher_hooks_click)

section \<open>Properties of the theme toggle\<close>

text \<open>
  C1. Whenever the local flag of \<^verbatim>\<open>Nav\<close> agrees with the marker, one call of
  \<^verbatim>\<open>toggleDark\<close> flips both: the marker is present afterwards exactly when it was
  absent before, the local flag is negated in the same call, and the button shows the
  label and the icon of the opposite state.
\<close>

theorem toggleDark_flips:
  assumes "isDarkMode h = marker b"
  shows "marker (fst (toggleDark b h)) = (\<not> marker b)
       \<and> isDarkMode (snd (toggleDark b h)) = (\<not> isDarkMode h)
       \<and> isDarkMode (snd (toggleDark b h)) = (\<not> marker b)
       \<and> toggle_label (Nav_render (snd (toggleDark b h)) child) =
           (if marker b then ''Dark Mode'' else ''Light Mode'')
       \<and> toggle_icon (Nav_render (snd (toggleDark b h)) child) =
           (if marker b then Moon else Sun)"
proof -
  have flag: "isDarkMode (snd (toggleDark b h)) = (\<not> marker b)"
    using assms by (simp add: isDarkMode_toggleDark)
  then show ?thesis
    by (simp add: marker_toggleDark isDarkMode_toggleDark Nav_render_def)
qed

theorem toggleDark_flips_witness:
  "isDarkMode \<lparr>isDarkMode = True\<rparr> = marker \<lparr>classList = [''dark''], opened = []\<rparr>
   \<and> marker (fst (toggleDark \<lparr>classList = [''dark''], opened = []\<rparr> \<lparr>isDarkMode = True\<rparr>)) = False
   \<and> isDarkMode (snd (toggleDark \<lparr>classList = [''dark''], opened = []\<rparr> \<lparr>isDarkMode = True\<rparr>)) = False
   \<and> toggle_label (Nav_render (snd (toggleDark \<lparr>classList = [''dark''], opened = []\<rparr>
         \<lparr>isDarkMode = True\<rparr>)) (ThemeSwitcher_render \<lparr>isDarkMode = True\<rparr>)) = ''Dark Mode''"
proof -
  have h: "isDarkMode \<lparr>isDarkMode = True\<rparr> = marker \<lparr>classList = [''dark''], opened = []\<rparr>"
    by (simp add: marker_def classList_contains_def)
  show ?thesis
    using h toggleDark_flips [OF h, of "ThemeSwitcher_render \<lparr>isDarkMode = True\<rparr>"]
    by (simp add: marker_def classList_contains_def)
qed

text \<open>
  C3. Two calls of \<^verbatim>\<open>toggleDark\<close> in a row bring the marker, the local flag and what
  \<^verbatim>\<open>Nav\<close> displays back to where they were; the set of tokens on the root element and
  the record of opened windows are the same as before.
\<close>

theorem toggleDark_twice:
  "marker (fst (toggleDark (fst (toggleDark b h)) (snd (toggleDark b h)))) = marker b
   \<and> isDarkMode (snd (toggleDark (fst (toggleDark b h)) (snd (toggleDark b h)))) = isDarkMode h
   \<and> Nav_render (snd (toggleDark (fst (toggleDark b h)) (snd (toggleDark b h)))) child =
       Nav_render h child
   \<and> set (classList (fst (toggleDark (fst (toggleDark b h)) (snd (toggleDark b h))))) =
       set (classList b)
   \<and> opened (fst (toggleDark (fst (toggleDark b h)) (snd (toggleDark b h)))) = opened b
   \<and> view (clicks pkg [ToggleTheme, ToggleTheme] p) = view p
   \<and> marker (env (clicks pkg [ToggleTheme, ToggleTheme] p)) = marker (env p)"
proof -
  have page: "view (clicks pkg [ToggleTheme, ToggleTheme] p) = view p
      \<and> marker (env (clicks pkg [ToggleTheme, ToggleTheme] p)) = marker (env p)"
    using marker_toggleDark [of "fst (toggleDark (env p) (Nav_hooks p))"
        "snd (toggleDark (env p) (Nav_hooks p))"]
      marker_toggleDark [of "env p" "Nav_hooks p"]
    by (simp add: split_beta Let_def view_def Nav_render_def isDarkMode_toggleDark)
  have "set (classList (fst (toggleDark (fst (toggleDark b h)) (snd (toggleDark b h))))) =
        set (classList b)"
    using tokens_toggle_twice [of "classList b" "''dark''"]
    by (simp add: toggleDark_def Let_def)
  with page show ?thesis
    by (simp add: marker_toggleDark isDarkMode_toggleDark opened_toggleDark Nav_render_def)
qed

text \<open>
  C10. \<^verbatim>\<open>toggleDark\<close> keeps the relation between the local flag of \<^verbatim>\<open>Nav\<close> and the
  marker as it finds it: if they agree before the call they agree after it, and if they
  disagree before it they still disagree after it.
\<close>

theorem toggleDark_keeps_agreement:
  "(isDarkMode h = marker b \<longrightarrow>
      isDarkMode (snd (toggleDark b h)) = marker (fst (toggleDark b h)))
   \<and> (isDarkMode h \<noteq> marker b \<longrightarrow>
      isDarkMode (snd (toggleDark b h)) \<noteq> marker (fst (toggleDark b h)))"
  by (simp add: marker_toggleDark isDarkMode_toggleDark)

theorem toggleDark_keeps_agreement_witness:
  "isDarkMode \<lparr>isDarkMode = False\<rparr> = marker \<lparr>classList = [], opened = []\<rparr>
   \<and> isDarkMode (snd (toggleDark \<lparr>classList = [], opened = []\<rparr> \<lparr>isDarkMode = False\<rparr>)) =
       marker (fst (toggleDark \<lparr>classList = [], opened = []\<rparr> \<lparr>isDarkMode = False\<rparr>))
   \<and> isDarkMode \<lparr>isDarkMode = True\<rparr> \<noteq> marker \<lparr>classList = [], opened = []\<rparr>
   \<and> isDarkMode (snd (toggleDark \<lparr>classList = [], opened = []\<rparr> \<lparr>isDarkMode = True\<rparr>)) \<noteq>
       marker (fst (toggleDark \<lparr>classList = [], opened = []\<rparr> \<lparr>isDarkMode = True\<rparr>))"
proof -
  have agree: "isDarkMode \<lparr>isDarkMode = False\<rparr> = marker \<lparr>classList = [], opened = []\<rparr>"
    by (simp add: marker_def classList_contains_def)
  have differ: "isDarkMode \<lparr>isDarkMode = True\<rparr> \<noteq> marker \<lparr>classList = [], opened = []\<rparr>"
    by (simp add: marker_def classList_contains_def)
  show ?thesis
    using agree differ
      toggleDark_keeps_agreement [of "\<lparr>isDarkMode = False\<rparr>" "\<lparr>classList = [], opened = []\<rparr>"]
      toggleDark_keeps_agreement [of "\<lparr>isDarkMode = True\<rparr>" "\<lparr>classList = [], opened = []\<rparr>"]
    by blast
qed

section \<open>Properties of the mount-time read\<close>

text \<open>
  C2. After a component has mounted and its layout effect has run, what it displays
  follows the marker: with the marker present the logo is \<^verbatim>\<open>/botdw-white.png\<close> and the
  label is \<^verbatim>\<open>Light Mode\<close>, with the marker absent the logo is \<^verbatim>\<open>/botdw-black.png\<close> and
  the label is \<^verbatim>\<open>Dark Mode\<close>; the rendered logo is the render function applied to the
  marker state read at mount.
\<close>

theorem mount_displays_marker:
  "src (ThemeSwitcher_render (snd (ThemeSwitcher_useLayoutEffect b ThemeSwitcher_useState))) =
     (if marker b then ''/botdw-white.png'' else ''/botdw-black.png'')
   \<and> toggle_label (Nav_render (snd (Nav_useLayoutEffect b Nav_useState)) child) =
     (if marker b then ''Light Mode'' else ''Dark Mode'')
   \<and> src (logo (view (mount b))) =
     (if marker b then ''/botdw-white.png'' else ''/botdw-black.png'')
   \<and> toggle_label (view (mount b)) = (if marker b then ''Light Mode'' else ''Dark Mode'')
   \<and> logo (view (mount b)) = ThemeSwitcher_render \<lparr>isDarkMode = marker b\<rparr>"
  by (simp add: view_def mount_def commit_layout_effects_def first_render_def
      ThemeSwitcher_useLayoutEffect_def Nav_useLayoutEffect_def ThemeSwitcher_useState_def
      Nav_useState_def ThemeSwitcher_render_def Nav_render_def marker_def Let_def)

text \<open>
  C6. The flag a component holds after its mount-time read depends on the marker alone:
  two instances (a \<^verbatim>\<open>ThemeSwitcher\<close> and a \<^verbatim>\<open>Nav\<close>, two \<^verbatim>\<open>ThemeSwitcher\<close>s, two
  \<^verbatim>\<open>Nav\<close>s) that mount under the same marker state end with the same flag, whatever
  each held before and without looking at one another.
\<close>

theorem mount_read_deterministic:
  assumes "marker b = marker b'"
  shows "isDarkMode (snd (ThemeSwitcher_useLayoutEffect b h)) =
           isDarkMode (snd (Nav_useLayoutEffect b' h'))
       \<and> isDarkMode (snd (ThemeSwitcher_useLayoutEffect b h)) =
           isDarkMode (snd (ThemeSwitcher_useLayoutEffect b' h'))
       \<and> isDarkMode (snd (Nav_useLayoutEffect b h)) =
           isDarkMode (snd (Nav_useLayoutEffect b' h'))
       \<and> isDarkMode (snd (ThemeSwitcher_useLayoutEffect b h)) = marker b"
  using assms
  by (simp add: ThemeSwitcher_useLayoutEffect_def Nav_useLayoutEffect_def marker_def Let_def)

theorem mount_read_deterministic_witness:
  "marker \<lparr>classList = [''dark''], opened = []\<rparr> = marker \<lparr>classList = [''app'', ''dark''], opened = []\<rparr>
   \<and> isDarkMode (snd (ThemeSwitcher_useLayoutEffect \<lparr>classList = [''dark''], opened = []\<rparr>
                      \<lparr>isDarkMode = False\<rparr>)) =
     isDarkMode (snd (Nav_useLayoutEffect \<lparr>classList = [''app'', ''dark''], opened = []\<rparr>
                      \<lparr>isDarkMode = True\<rparr>))"
proof -
  have h: "marker \<lparr>classList = [''dark''], opened = []\<rparr> =
           marker \<lparr>classList = [''app'', ''dark''], opened = []\<rparr>"
    by (simp add: marker_def classList_contains_def)
  show ?thesis
    using h mount_read_deterministic [OF h, of "\<lparr>isDarkMode = False\<rparr>" "\<lparr>isDarkMode = True\<rparr>"]
    by simp
qed

text \<open>
  C7. The mount-time read does not write the marker: the browser state after the layout
  effect of either component, and after the whole mount, is the one before it, so the
  effect changes the hook cells only.
\<close>

theorem mount_read_frame:
  "fst (ThemeSwitcher_useLayoutEffect b h) = b
   \<and> fst (Nav_useLayoutEffect b h) = b
   \<and> env (commit_layout_effects p) = env p
   \<and> env (mount b) = b
   \<and> marker (env (mount b)) = marker b"
  by (simp add: mount_def commit_layout_effects_def first_render_def
      ThemeSwitcher_useLayoutEffect_def Nav_useLayoutEffect_def Let_def)

text \<open>
  C9. Every hook cell starts at false, so the first render pass shows the light-mode
  logo \<^verbatim>\<open>/botdw-black.png\<close> and the label \<^verbatim>\<open>Dark Mode\<close> whatever the marker is, also
  when it is present; the flags follow the marker only once the layout effects have
  committed.
\<close>

theorem first_render_light:
  "isDarkMode ThemeSwitcher_useState = False
   \<and> isDarkMode Nav_useState = False
   \<and> src (ThemeSwitcher_render ThemeSwitcher_useState) = ''/botdw-black.png''
   \<and> src (logo (view (first_render b))) = ''/botdw-black.png''
   \<and> toggle_label (view (first_render b)) = ''Dark Mode''
   \<and> toggle_icon (view (first_render b)) = Moon
   \<and> isDarkMode (ThemeSwitcher_hooks (commit_layout_effects (first_render b))) = marker b
   \<and> isDarkMode (Nav_hooks (commit_layout_effects (first_render b))) = marker b"
  by (simp add: view_def commit_layout_effects_def first_render_def
      ThemeSwitcher_useLayoutEffect_def Nav_useLayoutEffect_def ThemeSwitcher_useState_def
      Nav_useState_def ThemeSwitcher_render_def Nav_render_def marker_def Let_def)

section \<open>The link buttons\<close>

text \<open>
  C8. A click on a link button calls \<^verbatim>\<open>window.open\<close> once, with the URL configured
  for that button, the target \<^verbatim>\<open>_blank\<close> (a new browsing context) and the features
  \<^verbatim>\<open>noopener noreferrer\<close>; the class list of the root element and the hook cells of both
  components are as before.
\<close>

theorem link_click_passthrough:
  "opened (env (click pkg Prototype p)) =
     opened (env p) @ [\<lparr>url = homepage pkg, target = ''_blank'', features = ''noopener noreferrer''\<rparr>]
   \<and> opened (env (click pkg ReadMore p)) =
     opened (env p) @ [\<lparr>url = readmore pkg, target = ''_blank'', features = ''noopener noreferrer''\<rparr>]
   \<and> classList (env (click pkg Prototype p)) = classList (env p)
   \<and> classList (env (click pkg ReadMore p)) = classList (env p)
   \<and> Nav_hooks (click pkg Prototype p) = Nav_hooks p
   \<and> Nav_hooks (click pkg ReadMore p) = Nav_hooks p
   \<and> ThemeSwitcher_hooks (click pkg Prototype p) = ThemeSwitcher_hooks p
   \<and> ThemeSwitcher_hooks (click pkg ReadMore p) = ThemeSwitcher_hooks p
   \<and> view (click pkg Prototype p) = view p
   \<and> view (click pkg ReadMore p) = view p"
  by (simp add: onClick_homepage_def onClick_readmore_def window_open_def view_def)

section \<open>The logo after a toggle\<close>

text \<open>
  C4. The page mounts in the light state and the toggle button is clicked once.
  Afterwards the marker is present and the label reads \<^verbatim>\<open>Light Mode\<close>, but the logo is
  still \<^verbatim>\<open>/botdw-black.png\<close>: the hook cell of \<^verbatim>\<open>ThemeSwitcher\<close> is written by its
  mount-time effect only, and \<^verbatim>\<open>toggleDark\<close> writes the cell of \<^verbatim>\<open>Nav\<close>.
\<close>

theorem toggle_from_light_logo_unchanged:
  "marker (env (click \<lparr>homepage = ''h'', readmore = ''r''\<rparr> ToggleTheme
             (mount \<lparr>classList = [], opened = []\<rparr>))) = True
   \<and> toggle_label (view (click \<lparr>homepage = ''h'', readmore = ''r''\<rparr> ToggleTheme
             (mount \<lparr>classList = [], opened = []\<rparr>))) = ''Light Mode''
   \<and> src (logo (view (click \<lparr>homepage = ''h'', readmore = ''r''\<rparr> ToggleTheme
             (mount \<lparr>classList = [], opened = []\<rparr>)))) = ''/botdw-black.png''
   \<and> src (logo (view (click \<lparr>homepage = ''h'', readmore = ''r''\<rparr> ToggleTheme
             (mount \<lparr>classList = [], opened = []\<rparr>)))) \<noteq> ''/botdw-white.png''"
  by (simp add: view_def mount_def commit_layout_effects_def first_render_def
      ThemeSwitcher_useLayoutEffect_def Nav_useLayoutEffect_def ThemeSwitcher_useState_def
      Nav_useState_def ThemeSwitcher_render_def Nav_render_def marker_def toggleDark_def
      classList_contains_def classList_toggle_def Let_def)

text \<open>
  C5. After the same mount and click the local flag of \<^verbatim>\<open>Nav\<close> agrees with the
  marker, and the local flag of the \<^verbatim>\<open>ThemeSwitcher\<close> mounted beside it does not: the
  marker is present and that flag is false.
\<close>

theorem ThemeSwitcher_flag_drifts:
  "marker (env (clicks \<lparr>homepage = ''h'', readmore = ''r''\<rparr> [ToggleTheme]
             (mount \<lparr>classList = [], opened = []\<rparr>))) = True
   \<and> isDarkMode (Nav_hooks (clicks \<lparr>homepage = ''h'', readmore = ''r''\<rparr> [ToggleTheme]
             (mount \<lparr>classList = [], opened = []\<rparr>))) = True
   \<and> isDarkMode (ThemeSwitcher_hooks (clicks \<lparr>homepage = ''h'', readmore = ''r''\<rparr> [ToggleTheme]
             (mount \<lparr>classList = [], opened = []\<rparr>))) = False"
  by (simp add: mount_def commit_layout_effects_def first_render_def
      ThemeSwitcher_useLayoutEffect_def Nav_useLayoutEffect_def ThemeSwitcher_useState_def
      Nav_useState_def marker_def toggleDark_def
      classList_contains_def classList_toggle_def Let_def)

end
